theory Spec2Isabelle
  imports Complex_Main
begin

section \<open>JavaScript numbers\<close>

text \<open>
  The dashboard computes on JavaScript numbers. A number is modelled as a finite value, one
  of the two infinities, or NaN. Finite values are exact reals: rounding, overflow and
  underflow of IEEE doubles are not modelled, the decimal literals of the source are the
  rationals they spell, and there is one zero, read as \<open>+0\<close> at a concrete input: a quotient
  by zero gets the sign IEEE gives it for the divisor \<open>+0\<close>, and the general theorems on a
  zero divisor leave open which of the two infinities results. The special values follow IEEE 754 as ECMAScript prescribes them:
  a division by zero gives an infinity or NaN, NaN propagates, and every comparison
  with NaN is false.
\<close>

datatype number = Fin real | PosInf | NegInf | NaN

fun jneg :: "number \<Rightarrow> number" where
  "jneg (Fin a) = Fin (- a)"
| "jneg PosInf = NegInf"
| "jneg NegInf = PosInf"
| "jneg NaN = NaN"

fun jadd :: "number \<Rightarrow> number \<Rightarrow> number" where
  "jadd NaN _ = NaN"
| "jadd _ NaN = NaN"
| "jadd (Fin a) (Fin b) = Fin (a + b)"
| "jadd PosInf NegInf = NaN"
| "jadd NegInf PosInf = NaN"
| "jadd PosInf _ = PosInf"
| "jadd _ PosInf = PosInf"
| "jadd NegInf _ = NegInf"
| "jadd _ NegInf = NegInf"

definition jsub :: "number \<Rightarrow> number \<Rightarrow> number" where
  "jsub a b = jadd a (jneg b)"

fun jmul :: "number \<Rightarrow> number \<Rightarrow> number" where
  "jmul NaN _ = NaN"
| "jmul _ NaN = NaN"
| "jmul (Fin a) (Fin b) = Fin (a * b)"
| "jmul (Fin a) PosInf = (if a = 0 then NaN else if 0 < a then PosInf else NegInf)"
| "jmul (Fin a) NegInf = (if a = 0 then NaN else if 0 < a then NegInf else PosInf)"
| "jmul PosInf (Fin b) = (if b = 0 then NaN else if 0 < b then PosInf else NegInf)"
| "jmul NegInf (Fin b) = (if b = 0 then NaN else if 0 < b then NegInf else PosInf)"
| "jmul PosInf PosInf = PosInf"
| "jmul PosInf NegInf = NegInf"
| "jmul NegInf PosInf = NegInf"
| "jmul NegInf NegInf = PosInf"

fun jdiv :: "number \<Rightarrow> number \<Rightarrow> number" where
  "jdiv NaN _ = NaN"
| "jdiv _ NaN = NaN"
| "jdiv (Fin a) (Fin b) =
     (if b = 0 then (if a = 0 then NaN else if 0 < a then PosInf else NegInf)
      else Fin (a / b))"
| "jdiv (Fin a) PosInf = Fin 0"
| "jdiv (Fin a) NegInf = Fin 0"
| "jdiv PosInf (Fin b) = (if 0 \<le> b then PosInf else NegInf)"
| "jdiv NegInf (Fin b) = (if 0 \<le> b then NegInf else PosInf)"
| "jdiv PosInf _ = NaN"
| "jdiv NegInf _ = NaN"

text \<open>\<open>a > b\<close>, \<open>a <= b\<close>: false as soon as one side is NaN.\<close>

fun jgt :: "number \<Rightarrow> number \<Rightarrow> bool" where
  "jgt NaN _ = False"
| "jgt _ NaN = False"
| "jgt (Fin a) (Fin b) = (b < a)"
| "jgt PosInf PosInf = False"
| "jgt PosInf _ = True"
| "jgt _ PosInf = False"
| "jgt NegInf _ = False"
| "jgt _ NegInf = True"

fun jle :: "number \<Rightarrow> number \<Rightarrow> bool" where
  "jle NaN _ = False"
| "jle _ NaN = False"
| "jle (Fin a) (Fin b) = (a \<le> b)"
| "jle NegInf _ = True"
| "jle _ PosInf = True"
| "jle PosInf _ = False"
| "jle _ NegInf = False"

definition jlt :: "number \<Rightarrow> number \<Rightarrow> bool" where
  "jlt a b = jgt b a"

text \<open>ToBoolean on a number: \<open>0\<close> and NaN are falsy.\<close>

fun truthy :: "number \<Rightarrow> bool" where
  "truthy (Fin a) = (a \<noteq> 0)"
| "truthy NaN = False"
| "truthy _ = True"

fun Math_abs :: "number \<Rightarrow> number" where
  "Math_abs (Fin a) = Fin \<bar>a\<bar>"
| "Math_abs NaN = NaN"
| "Math_abs _ = PosInf"

fun Math_exp :: "number \<Rightarrow> number" where
  "Math_exp (Fin a) = Fin (exp a)"
| "Math_exp PosInf = PosInf"
| "Math_exp NegInf = Fin 0"
| "Math_exp NaN = NaN"

fun Math_log :: "number \<Rightarrow> number" where
  "Math_log (Fin a) = (if a < 0 then NaN else if a = 0 then NegInf else Fin (ln a))"
| "Math_log PosInf = PosInf"
| "Math_log NegInf = NaN"
| "Math_log NaN = NaN"

fun Math_sqrt :: "number \<Rightarrow> number" where
  "Math_sqrt (Fin a) = (if a < 0 then NaN else Fin (sqrt a))"
| "Math_sqrt PosInf = PosInf"
| "Math_sqrt NegInf = NaN"
| "Math_sqrt NaN = NaN"

text \<open>\<open>Math.pow(x, 2)\<close>, the only power the source takes.\<close>

fun Math_pow2 :: "number \<Rightarrow> number" where
  "Math_pow2 (Fin a) = Fin (a ^ 2)"
| "Math_pow2 NaN = NaN"
| "Math_pow2 _ = PosInf"

section \<open>Math utilities\<close>

text \<open>
  \<open>cumulativeDistribution\<close>: the rational-polynomial approximation of the standard normal
  distribution function, with the source's constants and its order of operations.
\<close>

definition cumulativeDistribution :: "number \<Rightarrow> number" where
  "cumulativeDistribution x =
    (let t = jdiv (Fin 1) (jadd (Fin 1) (jmul (Fin 0.2316419) (Math_abs x)));
         d = jmul (Fin 0.39894228040) (Math_exp (jdiv (jmul (jneg x) x) (Fin 2)));
         p = jmul (jmul d t)
               (jadd (Fin 0.319381530)
                 (jmul t (jadd (Fin (- 0.356563782))
                   (jmul t (jadd (Fin 1.781477937)
                     (jmul t (jadd (Fin (- 1.821255978)) (jmul t (Fin 1.330274429)))))))))
     in if jgt x (Fin 0) then jsub (Fin 1) p else p)"

section \<open>Types\<close>

datatype TrendBias = bear | neutral | bull

datatype Direction = above | below

record HistoryPoint =
  hp_timestamp :: number
  hp_price :: number

record ChartPoint =
  timestamp :: number
  price :: "number option"
  mean :: "number option"
  sigma1 :: "(number \<times> number) option"
  sigma2 :: "(number \<times> number) option"
  sigma3 :: "(number \<times> number) option"

section \<open>Component state read by the model\<close>

text \<open>
  The dependency list of the \<open>model\<close> memo: \<open>livePrice\<close> is \<open>null\<close> until the first trade
  arrives, \<open>activeVolatility\<close> is \<open>useLiveVol ? liveVol : manualVol\<close>.
\<close>

record inputs =
  livePrice :: "number option"
  targetPrice :: number
  timeMinutes :: number
  activeVolatility :: number
  bias :: TrendBias

text \<open>\<open>!livePrice\<close>: \<open>null\<close>, \<open>0\<close> and NaN are falsy.\<close>

fun no_price :: "number option \<Rightarrow> bool" where
  "no_price None = True"
| "no_price (Some p) = (\<not> truthy p)"

text \<open>
  The handlers that write these fields. Each takes the number the handler has parsed
  (\<open>parseFloat\<close>, \<open>parseInt\<close>; NaN when the text is not a number).
  \<^item> \<open>ws.onmessage\<close>: \<open>setLivePrice(parseFloat(data.p))\<close>;
  \<^item> the target field: \<open>setTargetPrice(parseFloat(e.target.value) || 0)\<close>;
  \<^item> the horizon slider: \<open>setTimeMinutes(parseInt(e.target.value))\<close>.
\<close>

definition onmessage_price :: "number \<Rightarrow> inputs \<Rightarrow> inputs" where
  "onmessage_price currentPrice st = st\<lparr>livePrice := Some currentPrice\<rparr>"

definition targetPrice_onChange :: "number \<Rightarrow> inputs \<Rightarrow> inputs" where
  "targetPrice_onChange parsed st =
     st\<lparr>targetPrice := (if truthy parsed then parsed else Fin 0)\<rparr>"

definition timeMinutes_onChange :: "number \<Rightarrow> inputs \<Rightarrow> inputs" where
  "timeMinutes_onChange parsed st = st\<lparr>timeMinutes := parsed\<rparr>"

section \<open>Probabilistic modelling\<close>

record model_out =
  S :: number
  K :: number
  t_years :: number
  sigma :: number
  mu :: number
  driftCorrection :: number
  driftTerm :: number
  diffusionTerm :: number
  logReturn :: number
  zScore :: number
  probability :: number
  direction :: Direction

definition model :: "inputs \<Rightarrow> model_out option" where
  "model inp =
    (case livePrice inp of
       None \<Rightarrow> None
     | Some lp \<Rightarrow>
        if \<not> truthy lp then None
        else
          let s = lp;
              k = targetPrice inp;
              ty = jdiv (timeMinutes inp) (Fin 525600);
              sg = jdiv (activeVolatility inp) (Fin 100);
              mu0 = Fin 0;
              mu1 = (if bias inp = bull then jmul (Fin 0.5) sg else mu0);
              m = (if bias inp = bear then jmul (Fin (- 0.5)) sg else mu1);
              lr = Math_log (jdiv k s);
              dc = jsub m (jmul (Fin 0.5) (Math_pow2 sg));
              dt = jmul dc ty;
              df = jmul sg (Math_sqrt ty);
              numerator = jsub lr dt;
              z = jdiv numerator df;
              cdf = cumulativeDistribution z;
              pr = (if jgt (targetPrice inp) lp then jsub (Fin 1) cdf else cdf);
              dir = (if jgt (targetPrice inp) lp then above else below)
          in Some \<lparr> S = s, K = k, t_years = ty, sigma = sg, mu = m,
                     driftCorrection = dc, driftTerm = dt, diffusionTerm = df,
                     logReturn = lr, zScore = z, probability = pr, direction = dir \<rparr>)"

section \<open>Chart data\<close>

definition steps :: nat where
  "steps = 40"

definition calcBounds :: "number \<Rightarrow> number \<Rightarrow> number \<Rightarrow> number \<Rightarrow> number \<times> number" where
  "calcBounds lp totalDrift totalDiffusion n =
    (let upper = jmul lp (Math_exp (jadd totalDrift (jmul n totalDiffusion)));
         lower = jmul lp (Math_exp (jsub totalDrift (jmul n totalDiffusion)))
     in (lower, upper))"

text \<open>
  The body of the projection loop at index \<open>i\<close>: the point it pushes. \<open>now\<close> is the
  reading of \<open>Date.now()\<close> taken before the loop.
\<close>

definition projectionPoint :: "number \<Rightarrow> number \<Rightarrow> model_out \<Rightarrow> number \<Rightarrow> nat \<Rightarrow> ChartPoint" where
  "projectionPoint lp tm m now i =
    (let timeStepMinutes = jdiv tm (Fin (real steps));
         stepTimeMinutes = jmul (Fin (real i)) timeStepMinutes;
         stepT = jdiv stepTimeMinutes (Fin 525600);
         futureTimestamp = jadd now (jmul (jmul stepTimeMinutes (Fin 60)) (Fin 1000))
     in if i = 0 then
          \<lparr> timestamp = futureTimestamp, price = None, mean = Some lp,
            sigma1 = Some (lp, lp), sigma2 = Some (lp, lp), sigma3 = Some (lp, lp) \<rparr>
        else
          let totalDrift = jmul (driftCorrection m) stepT;
              totalDiffusion = jmul (sigma m) (Math_sqrt stepT);
              meanPrice = jmul lp (Math_exp totalDrift)
          in \<lparr> timestamp = futureTimestamp, price = None, mean = Some meanPrice,
               sigma1 = Some (calcBounds lp totalDrift totalDiffusion (Fin 1)),
               sigma2 = Some (calcBounds lp totalDrift totalDiffusion (Fin 2)),
               sigma3 = Some (calcBounds lp totalDrift totalDiffusion (Fin 3)) \<rparr>)"

text \<open>\<open>for (let i = 0; i <= steps; i++)\<close>, pushing onto \<open>projectionData\<close>.\<close>

function projectionLoop ::
  "number \<Rightarrow> number \<Rightarrow> model_out \<Rightarrow> number \<Rightarrow> nat \<Rightarrow> ChartPoint list \<Rightarrow> ChartPoint list" where
  "projectionLoop lp tm m now i projectionData =
    (if i \<le> steps
     then projectionLoop lp tm m now (Suc i) (projectionData @ [projectionPoint lp tm m now i])
     else projectionData)"
  by pat_completeness auto
termination
  by (relation "measure (\<lambda>(lp, tm, m, now, i, acc). Suc steps - i)") auto

definition historyData :: "HistoryPoint list \<Rightarrow> ChartPoint list" where
  "historyData history =
    map (\<lambda>h. \<lparr> timestamp = hp_timestamp h, price = Some (hp_price h), mean = None,
                sigma1 = None, sigma2 = None, sigma3 = None \<rparr>) history"

text \<open>
  \<open>chartData\<close> reads \<open>livePrice\<close> and \<open>timeMinutes\<close> of the state, the tick history, the
  memoised \<open>model\<close> and the clock.
\<close>

definition chartData ::
  "inputs \<Rightarrow> HistoryPoint list \<Rightarrow> number \<Rightarrow> model_out option \<Rightarrow> ChartPoint list" where
  "chartData inp history now mo =
    (case livePrice inp of
       None \<Rightarrow> []
     | Some lp \<Rightarrow>
        (if \<not> truthy lp then []
         else (case mo of
            None \<Rightarrow> []
          | Some m \<Rightarrow> historyData history @ projectionLoop lp (timeMinutes inp) m now 0 [])))"

section \<open>Volatility polling\<close>

text \<open>
  \<open>fetchDvol\<close> runs inside one \<open>try\<close>: the request may reject, the response may be not ok,
  \<open>response.json()\<close> may reject, and \<open>data.result.index_price\<close> throws a TypeError when
  \<open>data\<close> or \<open>data.result\<close> is \<open>null\<close> or \<open>undefined\<close>. Every one of them lands in the
  \<open>catch\<close>. The payload is untyped (\<open>any\<close>), so it is modelled as a JavaScript value and
  \<open>setLiveVol\<close> stores whatever truthy value it finds.
\<close>

datatype jsval =
  JUndefined | JNull | JBool bool | JNum number | JStr string
  | JArr "jsval list" | JObj "(string \<times> jsval) list"

datatype fetch_outcome =
  NetworkError
  | Response bool "jsval option"
    \<comment> \<open>\<open>response.ok\<close>, and the body as \<open>response.json()\<close> parses it (\<open>None\<close>: it rejects)\<close>

datatype js_error = TypeError

text \<open>
  Reading the property \<open>result\<close> or \<open>index_price\<close>: an object gives the value it holds or
  \<open>undefined\<close>, a primitive or an array has neither name, \<open>null\<close> and \<open>undefined\<close> throw.
  An object is the list of its properties, each name once, as \<open>JSON.parse\<close> leaves them.
\<close>

fun get_prop :: "jsval \<Rightarrow> string \<Rightarrow> js_error + jsval" where
  "get_prop JUndefined _ = Inl TypeError"
| "get_prop JNull _ = Inl TypeError"
| "get_prop (JObj kvs) k = Inr (case map_of kvs k of None \<Rightarrow> JUndefined | Some v \<Rightarrow> v)"
| "get_prop _ _ = Inr JUndefined"

fun js_truthy :: "jsval \<Rightarrow> bool" where
  "js_truthy JUndefined = False"
| "js_truthy JNull = False"
| "js_truthy (JBool b) = b"
| "js_truthy (JNum n) = truthy n"
| "js_truthy (JStr s) = (s \<noteq> [])"
| "js_truthy _ = True"

record vol_state =
  liveVol :: jsval
  isVolEstimated :: bool

definition fallback :: "vol_state \<Rightarrow> vol_state" where
  "fallback st = st\<lparr>liveVol := JNum (Fin 60), isVolEstimated := True\<rparr>"

definition fetchDvol :: "fetch_outcome \<Rightarrow> vol_state \<Rightarrow> vol_state" where
  "fetchDvol outcome st =
    (case outcome of
       NetworkError \<Rightarrow> fallback st
     | Response ok body \<Rightarrow>
        (if \<not> ok then fallback st
         else (case body of
            None \<Rightarrow> fallback st
          | Some data \<Rightarrow>
             (case get_prop data ''result'' of
                Inl _ \<Rightarrow> fallback st
              | Inr res \<Rightarrow>
                 (case get_prop res ''index_price'' of
                    Inl _ \<Rightarrow> fallback st
                  | Inr dvol \<Rightarrow>
                     (if js_truthy dvol
                      then st\<lparr>liveVol := dvol, isVolEstimated := False\<rparr>
                      else st))))))"

section \<open>Auxiliary definitions for the proofs\<close>

text \<open>The dashboard's initial controls, with a first trade at 3000.\<close>

definition example_inputs :: inputs where
  "example_inputs =
    \<lparr> livePrice = Some (Fin 3000), targetPrice = Fin 3000, timeMinutes = Fin 10,
      activeVolatility = Fin 60, bias = neutral \<rparr>"

text \<open>
  On a finite argument \<open>cumulativeDistribution\<close> is \<open>cd_tail\<close> or its complement, where
  \<open>cd_tail z = d \<sqdot> t \<sqdot> poly t\<close> with \<open>t = 1 / (1 + 0.2316419 \<sqdot> |z|)\<close>; \<open>cd_g t\<close> is \<open>t \<sqdot> poly t\<close>
  and \<open>cd_g'\<close> its derivative.
\<close>

definition cd_g :: "real \<Rightarrow> real" where
  "cd_g t = t * (0.319381530 + t * (- 0.356563782 + t * (1.781477937
              + t * (- 1.821255978 + t * 1.330274429))))"

definition cd_g' :: "real \<Rightarrow> real" where
  "cd_g' t = 0.319381530 + 2 * (- 0.356563782) * t
              + t\<^sup>2 * (5.344433811 - 7.285023912 * t + 6.651372145 * t\<^sup>2)"

definition cd_tail :: "real \<Rightarrow> real" where
  "cd_tail z = 0.39894228040 * exp (- z * z / 2) * cd_g (1 / (1 + 0.2316419 * \<bar>z\<bar>))"

text \<open>
  The nesting of the three bands of one chart point around its mean, with the source's
  comparison on numbers; a point without mean or bands is not nested.
\<close>

definition bands_nested :: "ChartPoint \<Rightarrow> bool" where
  "bands_nested p =
    (case (mean p, sigma1 p, sigma2 p, sigma3 p) of
       (Some m, Some (l1, u1), Some (l2, u2), Some (l3, u3)) \<Rightarrow>
          jle l1 m \<and> jle m u1 \<and> jle l2 m \<and> jle m u2
          \<and> jle u1 u2 \<and> jle l2 l1 \<and> jle u2 u3 \<and> jle l3 l2
     | _ \<Rightarrow> False)"

text \<open>A chart point with its timestamp blanked: what is left is the cone's prices.\<close>

definition drop_clock :: "ChartPoint \<Rightarrow> ChartPoint" where
  "drop_clock p = p\<lparr>timestamp := Fin 0\<rparr>"

text \<open>\<open>cumulativeDistribution\<close> on a finite argument, as a function on the reals.\<close>

definition cdf_real :: "real \<Rightarrow> real" where
  "cdf_real z = (if 0 < z then 1 - cd_tail z else cd_tail z)"

text \<open>
  The model's drift-corrected rate \<open>\<mu> - \<sigma>\<^sup>2 / 2\<close> and its z-score on finite inputs with a
  non-zero diffusion term, as functions on the reals.
\<close>

definition drift_rate :: "TrendBias \<Rightarrow> real \<Rightarrow> real" where
  "drift_rate b sg =
     (if b = bear then - 0.5 * sg else if b = bull then 0.5 * sg else 0) - 0.5 * sg\<^sup>2"

definition z_real :: "TrendBias \<Rightarrow> real \<Rightarrow> real \<Rightarrow> real \<Rightarrow> real \<Rightarrow> real" where
  "z_real b s k v tm =
     (ln (k / s) - drift_rate b (v / 100) * (tm / 525600)) / (v / 100 * sqrt (tm / 525600))"

section \<open>The model: tail selection and direction\<close>

lemma model_None_iff: "model inp = None \<longleftrightarrow> no_price (livePrice inp)"
  by (cases "livePrice inp") (simp_all add: model_def Let_def)

lemma example_model_Some: "\<exists>m. model example_inputs = Some m"
  by (simp add: model_def example_inputs_def Let_def)

text \<open>
  Claim C1. Whenever the model is computed, its probability is \<open>1 - cdf(zScore)\<close> when the
  direction is \<open>above\<close> and \<open>cdf(zScore)\<close> when it is \<open>below\<close>, and the direction is \<open>above\<close>
  exactly when \<open>target > spot\<close> holds (strictly) and \<open>below\<close> otherwise; the sign of the
  z-score plays no part.
\<close>

theorem model_probability_by_direction:
  assumes "model inp = Some m"
  shows "probability m =
           (if direction m = above then jsub (Fin 1) (cumulativeDistribution (zScore m))
            else cumulativeDistribution (zScore m))
       \<and> (direction m = above \<longleftrightarrow> jgt (K m) (S m))
       \<and> (direction m = below \<longleftrightarrow> \<not> jgt (K m) (S m))
       \<and> K m = targetPrice inp \<and> livePrice inp = Some (S m)"
  using assms
  by (cases "livePrice inp") (auto simp: model_def Let_def split: if_splits)

theorem model_probability_by_direction_witness:
  "direction (the (model example_inputs)) = below
   \<and> probability (the (model example_inputs))
       = cumulativeDistribution (zScore (the (model example_inputs)))"
proof -
  obtain m where m: "model example_inputs = Some m"
    using example_model_Some by blast
  note r = model_probability_by_direction [OF m]
  from r have "K m = Fin 3000" and "S m = Fin 3000"
    by (auto simp: example_inputs_def)
  then have "\<not> jgt (K m) (S m)" by simp
  with r m show ?thesis
    by (cases "direction m") auto
qed

section \<open>Input updates\<close>

text \<open>
  Claim C3, as stated, fails: typing \<open>0\<close> (or text that is not a number) into the target
  field replaces the target 3000 by 0, and the model is then computed with \<open>K = 0\<close>.
\<close>

theorem invalid_target_stored_counterexample:
  "targetPrice (targetPrice_onChange (Fin 0) example_inputs) = Fin 0
   \<and> targetPrice (targetPrice_onChange (Fin 0) example_inputs) \<noteq> targetPrice example_inputs
   \<and> model (targetPrice_onChange (Fin 0) example_inputs) \<noteq> None
   \<and> map_option K (model (targetPrice_onChange (Fin 0) example_inputs)) = Some (Fin 0)"
  by (simp add: targetPrice_onChange_def example_inputs_def model_def Let_def)

text \<open>
  Claim C3, amended. Updates are stored without a positivity check: a target entry that is
  zero or not a number becomes 0 and any other number, negative ones included, is stored as
  it is; a horizon or spot update is stored as parsed. The model is withheld exactly when
  the spot is absent, zero or NaN; otherwise it is computed from the spot, target and
  horizon the state holds.
\<close>

theorem updates_stored_unchecked:
  "targetPrice (targetPrice_onChange x st) = (if truthy x then x else Fin 0)
   \<and> timeMinutes (timeMinutes_onChange x st) = x
   \<and> livePrice (onmessage_price x st) = Some x
   \<and> (model st = None \<longleftrightarrow> no_price (livePrice st))
   \<and> (case model st of None \<Rightarrow> True
       | Some m \<Rightarrow> Some (S m) = livePrice st \<and> K m = targetPrice st
                   \<and> t_years m = jdiv (timeMinutes st) (Fin 525600))"
  by (cases "livePrice st")
     (simp_all add: targetPrice_onChange_def timeMinutes_onChange_def onmessage_price_def
        model_def Let_def)

theorem updates_stored_unchecked_witness:
  "targetPrice (targetPrice_onChange (Fin (- 5)) example_inputs) = Fin (- 5)
   \<and> timeMinutes (timeMinutes_onChange (Fin (- 5)) example_inputs) = Fin (- 5)
   \<and> livePrice (onmessage_price (Fin (- 5)) example_inputs) = Some (Fin (- 5))"
  using updates_stored_unchecked [of "Fin (- 5)" example_inputs] by simp

section \<open>The projection loop\<close>

lemma projectionLoop_eq:
  "projectionLoop lp tm m now i acc = acc @ map (projectionPoint lp tm m now) [i..<Suc steps]"
proof (induction lp tm m now i acc rule: projectionLoop.induct)
  case (1 lp tm m now i acc)
  show ?case
  proof (cases "i \<le> steps")
    case True
    then have "[i..<Suc steps] = i # [Suc i..<Suc steps]"
      by (simp add: upt_conv_Cons)
    with True "1.IH" show ?thesis
      by (subst projectionLoop.simps) simp
  next
    case False
    then show ?thesis
      by (subst projectionLoop.simps) simp
  qed
qed

lemma chartData_Some:
  assumes "livePrice inp = Some lp" and "truthy lp" and "mo = Some m"
  shows "chartData inp history now mo =
         historyData history @ map (projectionPoint lp (timeMinutes inp) m now) [0..<Suc steps]"
  apply (simp only: chartData_def assms option.case if_False not_True_eq_False simp_thms)
  apply (simp only: projectionLoop_eq append_Nil)
  done

lemma length_historyData: "length (historyData history) = length history"
  by (simp add: historyData_def)

lemma projection_part:
  assumes "livePrice inp = Some lp" and "truthy lp" and "mo = Some m"
  shows "drop (length history) (chartData inp history now mo) =
         map (projectionPoint lp (timeMinutes inp) m now) [0..<Suc steps]"
proof -
  have "drop (length history) (historyData history) = []"
    by (simp add: historyData_def)
  then show ?thesis
    by (simp only: chartData_Some [OF assms] drop_append length_historyData
          diff_self_eq_0 drop_0 append_Nil)
qed

lemma upt_Suc_steps: "[0..<Suc steps] = 0 # [1..<Suc steps]"
  by (simp only: upt_conv_Cons [OF zero_less_Suc] One_nat_def)

lemma model_Some: "livePrice inp = Some lp \<Longrightarrow> truthy lp \<Longrightarrow> \<exists>m. model inp = Some m"
  using model_None_iff [of inp] by auto

section \<open>The bridge point\<close>

text \<open>
  Claim C5. Whenever the spot is usable (a number other than 0 and NaN), the chart data is
  the history followed by exactly 41 projection points, and the first of them, the point at
  offset 0, has the spot as its mean and \<open>[spot, spot]\<close> as each of its three bands.
\<close>

theorem bridge_point_and_length:
  assumes "livePrice inp = Some lp" and "truthy lp"
  shows "length (drop (length history) (chartData inp history now (model inp))) = 41
       \<and> take (length history) (chartData inp history now (model inp)) = historyData history
       \<and> mean (chartData inp history now (model inp) ! length history) = Some lp
       \<and> sigma1 (chartData inp history now (model inp) ! length history) = Some (lp, lp)
       \<and> sigma2 (chartData inp history now (model inp) ! length history) = Some (lp, lp)
       \<and> sigma3 (chartData inp history now (model inp) ! length history) = Some (lp, lp)"
proof -
  from model_Some [OF assms] obtain m where m: "model inp = Some m" by blast
  note c = chartData_Some [OF assms m, of history now]
  note d = projection_part [OF assms m, of history now]
  have len: "length (drop (length history) (chartData inp history now (model inp))) = 41"
    by (simp only: d length_map length_upt steps_def)
  have tk: "take (length history) (chartData inp history now (model inp)) = historyData history"
  proof -
    have "take (length history) (historyData history) = historyData history"
      by (simp add: historyData_def)
    then show ?thesis
      by (simp only: c take_append length_historyData diff_self_eq_0 take_0 append_Nil2)
  qed
  have "chartData inp history now (model inp) ! length history
           = map (projectionPoint lp (timeMinutes inp) m now) [0..<Suc steps] ! 0"
    by (simp only: c nth_append length_historyData less_irrefl if_False diff_self_eq_0)
  also have "\<dots> = projectionPoint lp (timeMinutes inp) m now 0"
    by (simp only: upt_Suc_steps list.map nth_Cons_0)
  finally have nth: "chartData inp history now (model inp) ! length history
           = projectionPoint lp (timeMinutes inp) m now 0" .
  have "mean (projectionPoint lp (timeMinutes inp) m now 0) = Some lp"
    and "sigma1 (projectionPoint lp (timeMinutes inp) m now 0) = Some (lp, lp)"
    and "sigma2 (projectionPoint lp (timeMinutes inp) m now 0) = Some (lp, lp)"
    and "sigma3 (projectionPoint lp (timeMinutes inp) m now 0) = Some (lp, lp)"
    by (simp_all add: projectionPoint_def Let_def)
  with len tk show ?thesis
    by (simp only: nth simp_thms)
qed

theorem bridge_point_and_length_witness:
  "length (drop 0 (chartData example_inputs [] (Fin 0) (model example_inputs))) = 41
   \<and> mean (chartData example_inputs [] (Fin 0) (model example_inputs) ! 0) = Some (Fin 3000)
   \<and> sigma3 (chartData example_inputs [] (Fin 0) (model example_inputs) ! 0) = Some (Fin 3000, Fin 3000)"
  using bridge_point_and_length [of example_inputs "Fin 3000" "[]" "Fin 0"]
  by (simp add: example_inputs_def)

section \<open>Determinism and the clock\<close>

text \<open>
  Claim C9, as stated, fails: with the same inputs and the same model outputs, the cone
  computed when the clock reads 0 differs from the cone computed when it reads 1, because
  each point carries \<open>Date.now()\<close> plus its offset as timestamp.
\<close>

theorem cone_depends_on_clock_counterexample:
  "chartData example_inputs [] (Fin 0) (model example_inputs)
   \<noteq> chartData example_inputs [] (Fin 1) (model example_inputs)"
proof -
  obtain m where m: "model example_inputs = Some m"
    using example_model_Some by blast
  have lp: "livePrice example_inputs = Some (Fin 3000)" and tr: "truthy (Fin 3000)"
    by (simp_all add: example_inputs_def)
  have c: "chartData example_inputs [] now (model example_inputs)
         = projectionPoint (Fin 3000) (timeMinutes example_inputs) m now 0
           # map (projectionPoint (Fin 3000) (timeMinutes example_inputs) m now) [1..<Suc steps]"
    for now
    by (simp only: chartData_Some [OF lp tr m] historyData_def list.map append_Nil upt_Suc_steps)
  have t: "timestamp (projectionPoint (Fin 3000) (timeMinutes example_inputs) m (Fin a) 0) = Fin a"
    for a
    by (simp add: projectionPoint_def Let_def steps_def example_inputs_def)
  have "timestamp (hd (chartData example_inputs [] (Fin 0) (model example_inputs))) = Fin 0"
    and "timestamp (hd (chartData example_inputs [] (Fin 1) (model example_inputs))) = Fin 1"
    by (simp_all only: c list.sel t)
  then show ?thesis
    by (metis number.inject zero_neq_one)
qed

text \<open>
  Claim C9, amended. The model outputs are a function of the five inputs, and the cone's
  mean and band values are a function of the spot, the horizon and the model outputs: two
  computations that differ in the clock reading and in the tick history yield projection
  points that agree in every field but the timestamp.
\<close>

theorem cone_values_clock_free:
  "map drop_clock (drop (length h1) (chartData inp h1 now1 mo))
   = map drop_clock (drop (length h2) (chartData inp h2 now2 mo))"
proof (cases "\<exists>lp m. livePrice inp = Some lp \<and> truthy lp \<and> mo = Some m")
  case True
  then obtain lp m where a: "livePrice inp = Some lp" "truthy lp" "mo = Some m" by blast
  have "drop_clock (projectionPoint lp tm m now1 i) = drop_clock (projectionPoint lp tm m now2 i)"
    for tm i
    by (simp add: drop_clock_def projectionPoint_def Let_def)
  then have "map drop_clock (map (projectionPoint lp tm m now1) xs)
           = map drop_clock (map (projectionPoint lp tm m now2) xs)" for tm xs
    by (induction xs) simp_all
  then show ?thesis
    by (simp only: projection_part [OF a])
next
  case False
  then have "chartData inp h now mo = []" for h now
    by (auto simp: chartData_def split: option.splits)
  then show ?thesis by simp
qed

section \<open>Volatility fallback\<close>

text \<open>
  Claim C10, as stated, fails: a successful response whose body is the JSON object \<open>{}\<close>
  carries no index value, yet reading \<open>data.result.index_price\<close> throws, the \<open>catch\<close> runs,
  and the held volatility 45 is replaced by 60 and flagged as estimated.
\<close>

theorem missing_result_falls_back_counterexample:
  "fetchDvol (Response True (Some (JObj []))) \<lparr>liveVol = JNum (Fin 45), isVolEstimated = False\<rparr>
   = \<lparr>liveVol = JNum (Fin 60), isVolEstimated = True\<rparr>"
  by (simp add: fetchDvol_def fallback_def)

text \<open>
  Claim C10, amended. The fallback (volatility 60, estimated flag set) is triggered by a
  failed request (network error or response not ok), by a body that is not JSON, and by a
  body in which \<open>data\<close> or \<open>data.result\<close> is \<open>null\<close> or missing. When \<open>data.result\<close> can be read, a
  zero, absent or otherwise falsy \<open>index_price\<close> leaves the volatility and the flag as they
  were, and a truthy one is stored with the flag cleared.
\<close>

theorem fetchDvol_outcomes:
  "fetchDvol NetworkError st = fallback st
   \<and> fetchDvol (Response False body) st = fallback st
   \<and> fetchDvol (Response True None) st = fallback st
   \<and> (get_prop data ''result'' = Inl e
        \<longrightarrow> fetchDvol (Response True (Some data)) st = fallback st)
   \<and> (get_prop data ''result'' = Inr res \<and> get_prop res ''index_price'' = Inl e
        \<longrightarrow> fetchDvol (Response True (Some data)) st = fallback st)
   \<and> (get_prop data ''result'' = Inr res \<and> get_prop res ''index_price'' = Inr dvol
        \<longrightarrow> fetchDvol (Response True (Some data)) st =
            (if js_truthy dvol then st\<lparr>liveVol := dvol, isVolEstimated := False\<rparr> else st))"
  by (simp add: fetchDvol_def)

theorem fetchDvol_outcomes_witness:
  "fetchDvol (Response True (Some (JObj [(''result'', JObj [(''index_price'', JNum (Fin 0))])])))
      \<lparr>liveVol = JNum (Fin 45), isVolEstimated = True\<rparr>
    = \<lparr>liveVol = JNum (Fin 45), isVolEstimated = True\<rparr>
   \<and> fetchDvol (Response True (Some (JObj [(''result'', JObj [])])))
      \<lparr>liveVol = JNum (Fin 45), isVolEstimated = True\<rparr>
    = \<lparr>liveVol = JNum (Fin 45), isVolEstimated = True\<rparr>
   \<and> fetchDvol (Response True (Some (JObj [(''result'', JNull)])))
      \<lparr>liveVol = JNum (Fin 45), isVolEstimated = False\<rparr>
    = \<lparr>liveVol = JNum (Fin 60), isVolEstimated = True\<rparr>
   \<and> fetchDvol (Response True (Some JNull)) \<lparr>liveVol = JNum (Fin 45), isVolEstimated = False\<rparr>
    = \<lparr>liveVol = JNum (Fin 60), isVolEstimated = True\<rparr>"
  using
    fetchDvol_outcomes [where data = "JObj [(''result'', JObj [(''index_price'', JNum (Fin 0))])]"
      and res = "JObj [(''index_price'', JNum (Fin 0))]" and dvol = "JNum (Fin 0)"
      and st = "\<lparr>liveVol = JNum (Fin 45), isVolEstimated = True\<rparr>"]
    fetchDvol_outcomes [where data = "JObj [(''result'', JObj [])]"
      and res = "JObj []" and dvol = JUndefined
      and st = "\<lparr>liveVol = JNum (Fin 45), isVolEstimated = True\<rparr>"]
    fetchDvol_outcomes [where data = "JObj [(''result'', JNull)]"
      and res = JNull and e = TypeError
      and st = "\<lparr>liveVol = JNum (Fin 45), isVolEstimated = False\<rparr>"]
    fetchDvol_outcomes [where data = JNull and e = TypeError
      and st = "\<lparr>liveVol = JNum (Fin 45), isVolEstimated = False\<rparr>"]
  by (simp add: fallback_def)

section \<open>Band nesting\<close>

lemma model_sigma:
  "model inp = Some m \<Longrightarrow> sigma m = jdiv (activeVolatility inp) (Fin 100)"
  by (cases "livePrice inp") (auto simp: model_def Let_def split: if_splits)

lemma model_driftCorrection:
  "model inp = Some m \<Longrightarrow>
   driftCorrection m =
     jsub (if bias inp = bear then jmul (Fin (- 0.5)) (sigma m)
           else if bias inp = bull then jmul (Fin 0.5) (sigma m) else Fin 0)
          (jmul (Fin 0.5) (Math_pow2 (sigma m)))"
  by (cases "livePrice inp") (auto simp: model_def Let_def split: if_splits)

lemma model_finite_rates:
  assumes "model inp = Some m" and "activeVolatility inp = Fin v"
  shows "sigma m = Fin (v / 100) \<and> (\<exists>dc. driftCorrection m = Fin dc)"
proof -
  have s: "sigma m = Fin (v / 100)"
    using model_sigma [OF assms(1)] assms(2) by simp
  show ?thesis
    using model_driftCorrection [OF assms(1)] s by (simp add: jsub_def)
qed

lemma nested_bounds:
  assumes "0 < s" and "0 \<le> f"
  shows "bands_nested \<lparr> timestamp = ts, price = None, mean = Some (Fin (s * exp d)),
           sigma1 = Some (calcBounds (Fin s) (Fin d) (Fin f) (Fin 1)),
           sigma2 = Some (calcBounds (Fin s) (Fin d) (Fin f) (Fin 2)),
           sigma3 = Some (calcBounds (Fin s) (Fin d) (Fin f) (Fin 3)) \<rparr>"
  using assms by (simp add: bands_nested_def calcBounds_def Let_def jsub_def)

lemma projectionPoint_nested:
  assumes "0 < s" and "0 \<le> sg" and "0 \<le> tm"
    and "sigma m = Fin sg" and "driftCorrection m = Fin dc"
  shows "bands_nested (projectionPoint (Fin s) (Fin tm) m now i)"
proof (cases "i = 0")
  case True
  then show ?thesis
    by (simp add: projectionPoint_def Let_def bands_nested_def)
next
  case False
  let ?stepT = "real i * (tm / real steps) / 525600"
  have nn: "0 \<le> ?stepT" using assms(3) by simp
  have f: "0 \<le> sg * sqrt ?stepT" using assms(2) nn by simp
  have "projectionPoint (Fin s) (Fin tm) m now i =
        \<lparr> timestamp = jadd now (Fin (real i * (tm / real steps) * 60 * 1000)), price = None,
          mean = Some (Fin (s * exp (dc * ?stepT))),
          sigma1 = Some (calcBounds (Fin s) (Fin (dc * ?stepT)) (Fin (sg * sqrt ?stepT)) (Fin 1)),
          sigma2 = Some (calcBounds (Fin s) (Fin (dc * ?stepT)) (Fin (sg * sqrt ?stepT)) (Fin 2)),
          sigma3 = Some (calcBounds (Fin s) (Fin (dc * ?stepT)) (Fin (sg * sqrt ?stepT)) (Fin 3)) \<rparr>"
    using False nn assms(4,5) by (simp add: projectionPoint_def Let_def steps_def)
  then show ?thesis
    using nested_bounds [OF assms(1) f] by simp
qed

text \<open>
  Claim C6. For a positive spot, a non-negative volatility and a positive horizon, every one
  of the 41 projection points has its bands nested around the mean: each band's lower end is
  at most the mean and its upper end at least the mean, the upper ends grow from band 1 to
  band 2 to band 3, and the lower ends shrink.
\<close>

theorem bands_nest_around_mean:
  assumes "livePrice inp = Some (Fin s)" and "0 < s"
    and "activeVolatility inp = Fin v" and "0 \<le> v"
    and "timeMinutes inp = Fin tm" and "0 < tm"
  shows "list_all bands_nested (drop (length history) (chartData inp history now (model inp)))
       \<and> length (drop (length history) (chartData inp history now (model inp))) = 41"
proof -
  have tr: "truthy (Fin s)" using assms(2) by simp
  from model_Some [OF assms(1) tr] obtain m where m: "model inp = Some m" by blast
  from model_finite_rates [OF m assms(3)] obtain dc where
    r: "sigma m = Fin (v / 100)" "driftCorrection m = Fin dc" by blast
  have sg: "0 \<le> v / 100" using assms(4) by simp
  have tm: "0 \<le> tm" using assms(6) by simp
  have pt: "bands_nested (projectionPoint (Fin s) (Fin tm) m now i)" for i
    by (rule projectionPoint_nested [OF assms(2) sg tm r])
  have d: "drop (length history) (chartData inp history now (model inp)) =
         map (projectionPoint (Fin s) (Fin tm) m now) [0..<Suc steps]"
    using projection_part [OF assms(1) tr m, of history now] assms(5) by simp
  have "list_all bands_nested (map (projectionPoint (Fin s) (Fin tm) m now) xs)" for xs
    by (induction xs) (simp_all add: pt)
  moreover have "length (map (projectionPoint (Fin s) (Fin tm) m now) [0..<Suc steps]) = 41"
    by (simp only: length_map length_upt steps_def)
  ultimately show ?thesis
    by (simp only: d simp_thms)
qed

theorem bands_nest_around_mean_witness:
  "list_all bands_nested (drop 0 (chartData example_inputs [] (Fin 0) (model example_inputs)))
   \<and> length (drop 0 (chartData example_inputs [] (Fin 0) (model example_inputs))) = 41"
  using bands_nest_around_mean [of example_inputs 3000 60 10 "[]" "Fin 0"]
  by (simp add: example_inputs_def)

section \<open>The distribution function on finite arguments\<close>

lemma cd_denominator_pos: "0 < 1 + 0.2316419 * \<bar>z::real\<bar>"
proof -
  have "0 \<le> 0.2316419 * \<bar>z\<bar>" by simp
  then show ?thesis by linarith
qed

lemma cd_Fin:
  "cumulativeDistribution (Fin z) = Fin (if 0 < z then 1 - cd_tail z else cd_tail z)"
  using cd_denominator_pos [of z]
  by (simp add: cumulativeDistribution_def Let_def jsub_def cd_tail_def cd_g_def)

lemma cd_PosInf: "cumulativeDistribution PosInf = Fin 1"
  by (simp add: cumulativeDistribution_def Let_def jsub_def)

lemma cd_NegInf: "cumulativeDistribution NegInf = Fin 0"
  by (simp add: cumulativeDistribution_def Let_def jsub_def)

lemma cd_NaN: "cumulativeDistribution NaN = NaN"
  by (simp add: cumulativeDistribution_def Let_def jsub_def)

lemma quad_lower:
  fixes a b c x :: real
  assumes "0 < a"
  shows "c - b\<^sup>2 / (4 * a) \<le> a * x\<^sup>2 + b * x + c"
proof -
  have "a * x\<^sup>2 + b * x + c - (c - b\<^sup>2 / (4 * a)) = a * (x + b / (2 * a))\<^sup>2"
    using assms by (simp add: power2_eq_square field_simps)
  moreover have "0 \<le> a * (x + b / (2 * a))\<^sup>2"
    using assms by simp
  ultimately show ?thesis by linarith
qed

lemma quartic_part_ge_3:
  fixes x :: real
  shows "3 \<le> 5.344433811 - 7.285023912 * x + 6.651372145 * x\<^sup>2"
proof -
  have "(3::real) \<le> 5.344433811 - (- 7.285023912)\<^sup>2 / (4 * 6.651372145)"
    by (simp add: power2_eq_square)
  also have "\<dots> \<le> 6.651372145 * x\<^sup>2 + (- 7.285023912) * x + 5.344433811"
    by (rule quad_lower) simp
  finally show ?thesis by simp
qed

lemma cd_g'_pos: "0 < cd_g' t"
proof -
  have "3 * t\<^sup>2 \<le> t\<^sup>2 * (5.344433811 - 7.285023912 * t + 6.651372145 * t\<^sup>2)"
  proof -
    have "t\<^sup>2 * 3 \<le> t\<^sup>2 * (5.344433811 - 7.285023912 * t + 6.651372145 * t\<^sup>2)"
      by (rule mult_left_mono [OF quartic_part_ge_3]) simp
    then show ?thesis by (simp only: mult.commute)
  qed
  moreover have "(0::real) < 0.319381530 - (2 * (- 0.356563782))\<^sup>2 / (4 * 3)"
    by (simp add: power2_eq_square)
  moreover have "0.319381530 - (2 * (- 0.356563782))\<^sup>2 / (4 * 3)
                 \<le> 3 * t\<^sup>2 + (2 * (- 0.356563782)) * t + 0.319381530"
    by (rule quad_lower) simp
  ultimately show ?thesis unfolding cd_g'_def by linarith
qed

lemma cd_g_deriv: "(cd_g has_real_derivative cd_g' t) (at t)"
  unfolding cd_g_def cd_g'_def
  by (auto intro!: derivative_eq_intros simp: power2_eq_square algebra_simps)

lemma cd_g_strict_mono: "u < v \<Longrightarrow> cd_g u < cd_g v"
  by (rule DERIV_pos_imp_increasing [of u v cd_g]) (auto intro: cd_g_deriv cd_g'_pos)

lemma cd_g_mono: "u \<le> v \<Longrightarrow> cd_g u \<le> cd_g v"
  using cd_g_strict_mono [of u v] by (cases "u = v") auto

lemma cd_g_0: "cd_g 0 = 0"
  by (simp add: cd_g_def)

lemma cd_g_1: "cd_g 1 = 1.253314136"
  by (simp add: cd_g_def)

lemma cd_g_pos: "0 < t \<Longrightarrow> 0 < cd_g t"
  using cd_g_strict_mono [of 0 t] by (simp add: cd_g_0)

lemma cd_arg_pos: "0 < 1 / (1 + 0.2316419 * \<bar>z::real\<bar>)"
  using cd_denominator_pos [of z] by simp

lemma cd_tail_pos: "0 < cd_tail z"
  unfolding cd_tail_def
  using cd_g_pos [OF cd_arg_pos [of z]] by simp

lemma cd_tail_even: "cd_tail (- z) = cd_tail z"
  by (simp add: cd_tail_def)

lemma cd_tail_0: "cd_tail 0 = 0.39894228040 * 1.253314136"
  by (simp add: cd_tail_def cd_g_1)

lemma cd_tail_antimono:
  assumes "0 \<le> a" and "a < b"
  shows "cd_tail b < cd_tail a"
proof -
  have sq: "a * a < b * b"
    by (rule mult_strict_mono') (use assms in simp_all)
  have e: "exp (- b * b / 2) < exp (- a * a / 2)"
    using sq by simp
  have "1 + 0.2316419 * \<bar>a\<bar> < 1 + 0.2316419 * \<bar>b\<bar>"
    using assms by simp
  then have "1 / (1 + 0.2316419 * \<bar>b\<bar>) < 1 / (1 + 0.2316419 * \<bar>a\<bar>)"
    using cd_denominator_pos [of a] by (simp add: frac_less2)
  then have g: "cd_g (1 / (1 + 0.2316419 * \<bar>b\<bar>)) < cd_g (1 / (1 + 0.2316419 * \<bar>a\<bar>))"
    by (rule cd_g_strict_mono)
  have gp: "0 < cd_g (1 / (1 + 0.2316419 * \<bar>b\<bar>))"
    by (rule cd_g_pos [OF cd_arg_pos])
  have "exp (- b * b / 2) * cd_g (1 / (1 + 0.2316419 * \<bar>b\<bar>))
      < exp (- a * a / 2) * cd_g (1 / (1 + 0.2316419 * \<bar>a\<bar>))"
    by (rule mult_strict_mono [OF e g]) (use gp in simp_all)
  then show ?thesis
    by (simp add: cd_tail_def mult.assoc)
qed

lemma cd_tail_le_0: "cd_tail z \<le> cd_tail 0"
proof (cases "z = 0")
  case True
  then show ?thesis by simp
next
  case False
  then have "0 < \<bar>z\<bar>" by simp
  from cd_tail_antimono [OF order_refl this] have "cd_tail \<bar>z\<bar> < cd_tail 0" .
  moreover have "cd_tail \<bar>z\<bar> = cd_tail z"
    using cd_tail_even [of z] by (cases "0 \<le> z") (simp_all add: abs_if)
  ultimately show ?thesis by simp
qed

lemma cd_tail_0_less_half: "cd_tail 0 < 1 / 2"
  by (simp add: cd_tail_0)

lemma cd_tail_less_half: "cd_tail z < 1 / 2"
  using cd_tail_le_0 [of z] cd_tail_0_less_half by linarith

lemma cdf_real_bounds: "0 < cdf_real z \<and> cdf_real z < 1"
  using cd_tail_pos [of z] cd_tail_less_half [of z] by (simp add: cdf_real_def)

text \<open>
  Claim C7. For every real \<open>z\<close>, \<open>cumulativeDistribution z + cumulativeDistribution (-z)\<close>
  is within \<open>10\<^sup>-\<^sup>6\<close> of 1 (it is exactly 1 for \<open>z \<noteq> 0\<close>, and twice the tail value at 0
  otherwise).
\<close>

theorem cdf_reflection_sums_to_one:
  "\<exists>a b. cumulativeDistribution (Fin z) = Fin a
        \<and> cumulativeDistribution (jneg (Fin z)) = Fin b
        \<and> \<bar>a + b - 1\<bar> \<le> 1 / 1000000"
proof -
  have "\<bar>(if 0 < z then 1 - cd_tail z else cd_tail z)
        + (if 0 < - z then 1 - cd_tail (- z) else cd_tail (- z)) - 1\<bar> \<le> 1 / 1000000"
  proof (cases "z = 0")
    case True
    then show ?thesis by (simp add: cd_tail_0)
  next
    case False
    then show ?thesis by (simp add: cd_tail_even)
  qed
  then show ?thesis
    by (simp only: cd_Fin jneg.simps) blast
qed

section \<open>The model on finite inputs\<close>

lemma cd_Fin_real: "cumulativeDistribution (Fin z) = Fin (cdf_real z)"
  by (simp only: cd_Fin cdf_real_def)

lemma model_fields:
  assumes "model inp = Some m"
  shows "livePrice inp = Some (S m)"
    and "zScore m =
          jdiv (jsub (Math_log (jdiv (targetPrice inp) (S m)))
                     (jmul (driftCorrection m) (jdiv (timeMinutes inp) (Fin 525600))))
               (jmul (sigma m) (Math_sqrt (jdiv (timeMinutes inp) (Fin 525600))))"
    and "probability m =
          (if jgt (targetPrice inp) (S m) then jsub (Fin 1) (cumulativeDistribution (zScore m))
           else cumulativeDistribution (zScore m))"
    and "direction m = (if jgt (targetPrice inp) (S m) then above else below)"
  using assms
  by (cases "livePrice inp"; auto simp: model_def Let_def split: if_splits)+

lemma model_driftCorrection_Fin:
  assumes "model inp = Some m" and "activeVolatility inp = Fin v"
  shows "sigma m = Fin (v / 100)"
    and "driftCorrection m = Fin (drift_rate (bias inp) (v / 100))"
proof -
  show s: "sigma m = Fin (v / 100)"
    using model_sigma [OF assms(1)] assms(2) by simp
  show "driftCorrection m = Fin (drift_rate (bias inp) (v / 100))"
    using model_driftCorrection [OF assms(1)] s by (simp add: jsub_def drift_rate_def)
qed

lemma model_zScore_Fin:
  assumes "model inp = Some m"
    and "livePrice inp = Some (Fin s)" and "0 < s"
    and "targetPrice inp = Fin k" and "0 < k"
    and "activeVolatility inp = Fin v"
    and "timeMinutes inp = Fin tm" and "0 < tm"
  shows "zScore m = jdiv (Fin (ln (k / s) - drift_rate (bias inp) (v / 100) * (tm / 525600)))
                         (Fin (v / 100 * sqrt (tm / 525600)))"
proof -
  have S: "S m = Fin s"
    using model_fields(1) [OF assms(1)] assms(2) by simp
  have q: "\<not> k / s < 0" "k / s \<noteq> 0"
    using assms(3,5) by (simp_all add: not_less)
  have t: "\<not> tm / 525600 < 0"
    using assms(8) by simp
  show ?thesis
    using q t
    by (simp add: model_fields(2) [OF assms(1)] model_driftCorrection_Fin [OF assms(1,6)]
          S assms(4,7) jsub_def)
qed

lemma model_positive_vol:
  assumes "livePrice inp = Some (Fin s)" and "0 < s"
    and "targetPrice inp = Fin k" and "0 < k"
    and "activeVolatility inp = Fin v" and "0 < v"
    and "timeMinutes inp = Fin tm" and "0 < tm"
  shows "\<exists>m. model inp = Some m
           \<and> zScore m = Fin (z_real (bias inp) s k v tm)
           \<and> probability m = Fin (if s < k then 1 - cdf_real (z_real (bias inp) s k v tm)
                                   else cdf_real (z_real (bias inp) s k v tm))
           \<and> direction m = (if s < k then above else below)"
proof -
  have tr: "truthy (Fin s)" using assms(2) by simp
  from model_Some [OF assms(1) tr] obtain m where m: "model inp = Some m" by blast
  have S: "S m = Fin s"
    using model_fields(1) [OF m] assms(1) by simp
  have d: "v / 100 * sqrt (tm / 525600) \<noteq> 0"
    using assms(6,8) by simp
  have z: "zScore m = Fin (z_real (bias inp) s k v tm)"
    using model_zScore_Fin [OF m assms(1,2,3,4,5,7,8)] d
    by (simp add: z_real_def)
  have p: "probability m = Fin (if s < k then 1 - cdf_real (z_real (bias inp) s k v tm)
                                   else cdf_real (z_real (bias inp) s k v tm))"
    by (simp add: model_fields(3) [OF m] S assms(3) z cd_Fin_real jsub_def)
  have "direction m = (if s < k then above else below)"
    by (simp add: model_fields(4) [OF m] S assms(3))
  with m z p show ?thesis by blast
qed

lemma model_zero_vol:
  assumes "livePrice inp = Some (Fin s)" and "0 < s"
    and "targetPrice inp = Fin k" and "0 < k"
    and "activeVolatility inp = Fin 0"
    and "timeMinutes inp = Fin tm" and "0 < tm"
  shows "\<exists>m. model inp = Some m
           \<and> zScore m = (if k = s then NaN else if s < k then PosInf else NegInf)
           \<and> probability m = (if k = s then NaN else Fin 0)"
proof -
  have tr: "truthy (Fin s)" using assms(2) by simp
  from model_Some [OF assms(1) tr] obtain m where m: "model inp = Some m" by blast
  have S: "S m = Fin s"
    using model_fields(1) [OF m] assms(1) by simp
  have l: "ln (k / s) = 0 \<longleftrightarrow> k = s" "0 < ln (k / s) \<longleftrightarrow> s < k"
    using assms(2,4) by (auto simp: ln_eq_zero_iff ln_gt_zero_iff)
  have dr: "drift_rate (bias inp) (0 / 100) = 0"
    by (simp add: drift_rate_def)
  have "zScore m = jdiv (Fin (ln (k / s))) (Fin 0)"
    using model_zScore_Fin [OF m assms(1,2,3,4,5,6,7)]
    by (simp only: dr) simp
  then have z: "zScore m = (if k = s then NaN else if s < k then PosInf else NegInf)"
    by (simp only: jdiv.simps l) simp
  have p: "probability m = (if k = s then NaN else Fin 0)"
    by (simp add: model_fields(3) [OF m] S assms(3) z cd_PosInf cd_NegInf cd_NaN jsub_def)
  with m z show ?thesis by blast
qed

lemma model_terms:
  assumes "model inp = Some m"
  shows "logReturn m = Math_log (jdiv (targetPrice inp) (S m))"
    and "driftTerm m = jmul (driftCorrection m) (jdiv (timeMinutes inp) (Fin 525600))"
    and "diffusionTerm m = jmul (sigma m) (Math_sqrt (jdiv (timeMinutes inp) (Fin 525600)))"
    and "zScore m = jdiv (jsub (logReturn m) (driftTerm m)) (diffusionTerm m)"
  using assms
  by (cases "livePrice inp"; auto simp: model_def Let_def split: if_splits)+

lemma cd_range:
  assumes "x \<noteq> NaN"
  shows "\<exists>p. cumulativeDistribution x = Fin p \<and> 0 \<le> p \<and> p \<le> 1"
proof (cases x)
  case (Fin z)
  then show ?thesis
    using cdf_real_bounds [of z] by (simp add: cd_Fin_real)
next
  case PosInf
  then show ?thesis by (simp add: cd_PosInf)
next
  case NegInf
  then show ?thesis by (simp add: cd_NegInf)
next
  case NaN
  with assms show ?thesis by simp
qed

lemma probability_of_zScore:
  assumes "model inp = Some m"
  shows "if zScore m = NaN then probability m = NaN
         else \<exists>p. probability m = Fin p \<and> 0 \<le> p \<and> p \<le> 1"
proof (cases "zScore m = NaN")
  case True
  then show ?thesis
    by (simp add: model_fields(3) [OF assms] cd_NaN jsub_def)
next
  case False
  from cd_range [OF False] obtain p where
    p: "cumulativeDistribution (zScore m) = Fin p" "0 \<le> p" "p \<le> 1" by blast
  have "probability m = Fin p \<or> probability m = Fin (1 - p)"
    by (simp add: model_fields(3) [OF assms] p(1) jsub_def)
  with p(2,3) False show ?thesis by auto
qed

lemma zero_divisor_quotient:
  "jdiv n (Fin 0) = (if n = Fin 0 \<or> n = NaN then NaN
                     else if jgt n (Fin 0) then PosInf else NegInf)"
  by (cases n) auto

lemma probability_at_infinite_zScore:
  assumes "model inp = Some m" and "zScore m = PosInf \<or> zScore m = NegInf"
  shows "probability m = Fin 0 \<or> probability m = Fin 1"
  using assms(2)
  by (auto simp: model_fields(3) [OF assms(1)] cd_PosInf cd_NegInf jsub_def)

lemma zero_diffusion:
  assumes "model inp = Some m" and "diffusionTerm m = Fin 0"
  shows "if jsub (logReturn m) (driftTerm m) = Fin 0 \<or> jsub (logReturn m) (driftTerm m) = NaN
         then zScore m = NaN \<and> probability m = NaN
         else (zScore m = PosInf \<or> zScore m = NegInf)
              \<and> (probability m = Fin 0 \<or> probability m = Fin 1)"
proof -
  let ?n = "jsub (logReturn m) (driftTerm m)"
  have z: "zScore m = (if ?n = Fin 0 \<or> ?n = NaN then NaN
                       else if jgt ?n (Fin 0) then PosInf else NegInf)"
    by (simp only: model_terms(4) [OF assms(1)] assms(2) zero_divisor_quotient)
  show ?thesis
  proof (cases "?n = Fin 0 \<or> ?n = NaN")
    case True
    with z have "zScore m = NaN" by simp
    with probability_of_zScore [OF assms(1)] True show ?thesis by simp
  next
    case False
    with z have i: "zScore m = PosInf \<or> zScore m = NegInf" by simp
    from probability_at_infinite_zScore [OF assms(1) i] i False show ?thesis by simp
  qed
qed

lemma model_zero_vol_terms:
  assumes "model inp = Some m"
    and "livePrice inp = Some (Fin s)" and "0 < s"
    and "targetPrice inp = Fin k" and "0 < k"
    and "activeVolatility inp = Fin 0"
    and "timeMinutes inp = Fin tm" and "0 < tm"
  shows "diffusionTerm m = Fin 0"
    and "jsub (logReturn m) (driftTerm m) = Fin (ln (k / s))"
    and "zScore m = NaN \<longleftrightarrow> k = s"
proof -
  have S: "S m = Fin s"
    using model_fields(1) [OF assms(1)] assms(2) by simp
  have sg: "sigma m = Fin 0"
    using model_driftCorrection_Fin(1) [OF assms(1,6)] by simp
  have dc: "driftCorrection m = Fin 0"
    using model_driftCorrection_Fin(2) [OF assms(1,6)] by (simp add: drift_rate_def)
  have t: "\<not> tm / 525600 < 0" using assms(8) by simp
  show d: "diffusionTerm m = Fin 0"
    using t by (simp add: model_terms(3) [OF assms(1)] sg assms(7))
  have q: "\<not> k / s < 0" "k / s \<noteq> 0"
    using assms(3,5) by (simp_all add: not_less)
  show n: "jsub (logReturn m) (driftTerm m) = Fin (ln (k / s))"
    using q by (simp add: model_terms(1,2) [OF assms(1)] S dc assms(4,7) jsub_def)
  have l: "ln (k / s) = 0 \<longleftrightarrow> k = s"
    using assms(3,5) by (auto simp: ln_eq_zero_iff)
  show "zScore m = NaN \<longleftrightarrow> k = s"
    using l by (simp add: model_terms(4) [OF assms(1)] d n)
qed

section \<open>Range of the probability\<close>

text \<open>
  Claim C2, as stated, fails: with volatility 0 and the target at the spot (3000), the
  z-score is \<open>0 / 0\<close> and the probability is NaN; the division is not special-cased.
\<close>

theorem zero_vol_at_target_counterexample:
  "map_option probability (model (example_inputs\<lparr>activeVolatility := Fin 0\<rparr>)) = Some NaN"
proof -
  from model_zero_vol [of "example_inputs\<lparr>activeVolatility := Fin 0\<rparr>" 3000 3000 10]
  show ?thesis by (auto simp: example_inputs_def)
qed

text \<open>
  Claim C2, amended. Whenever the model is computed, the z-score is the unguarded quotient
  \<open>(logReturn - driftTerm) / diffusionTerm\<close>, and the probability is NaN when the z-score is
  NaN and a finite number in \<open>[0, 1]\<close> otherwise; it is never infinite. A zero diffusion term
  is not special-cased: the quotient is then NaN when the numerator is zero (or NaN) and
  \<open>+\<infinity>\<close> or \<open>-\<infinity>\<close> otherwise, with probability exactly 0 or 1 and no at-target sentinel. In
  particular, for a finite positive spot, target and horizon at volatility 0 the diffusion
  term is zero, and the z-score (hence the probability) is NaN exactly when the target
  equals the spot. Without a computed model (\<open>null\<close>) the spot is absent, zero or NaN.
\<close>

theorem probability_range:
  "case model inp of
     None \<Rightarrow> no_price (livePrice inp)
   | Some m \<Rightarrow>
       zScore m = jdiv (jsub (logReturn m) (driftTerm m)) (diffusionTerm m)
     \<and> (if zScore m = NaN then probability m = NaN
        else \<exists>p. probability m = Fin p \<and> 0 \<le> p \<and> p \<le> 1)
     \<and> (diffusionTerm m = Fin 0 \<longrightarrow>
         (if jsub (logReturn m) (driftTerm m) = Fin 0 \<or> jsub (logReturn m) (driftTerm m) = NaN
          then zScore m = NaN \<and> probability m = NaN
          else (zScore m = PosInf \<or> zScore m = NegInf)
               \<and> (probability m = Fin 0 \<or> probability m = Fin 1)))
     \<and> (livePrice inp = Some (Fin s) \<and> 0 < s \<and> targetPrice inp = Fin k \<and> 0 < k
         \<and> timeMinutes inp = Fin tm \<and> 0 < tm \<and> activeVolatility inp = Fin 0 \<longrightarrow>
         diffusionTerm m = Fin 0 \<and> (zScore m = NaN \<longleftrightarrow> k = s))"
proof (cases "model inp")
  case None
  moreover from None have "no_price (livePrice inp)"
    using model_None_iff [of inp] by blast
  ultimately show ?thesis by simp
next
  case (Some m)
  have a: "zScore m = jdiv (jsub (logReturn m) (driftTerm m)) (diffusionTerm m)"
    by (rule model_terms(4) [OF Some])
  note b = probability_of_zScore [OF Some]
  have c: "diffusionTerm m = Fin 0 \<longrightarrow>
         (if jsub (logReturn m) (driftTerm m) = Fin 0 \<or> jsub (logReturn m) (driftTerm m) = NaN
          then zScore m = NaN \<and> probability m = NaN
          else (zScore m = PosInf \<or> zScore m = NegInf)
               \<and> (probability m = Fin 0 \<or> probability m = Fin 1))"
    using zero_diffusion [OF Some] by blast
  have d: "livePrice inp = Some (Fin s) \<and> 0 < s \<and> targetPrice inp = Fin k \<and> 0 < k
         \<and> timeMinutes inp = Fin tm \<and> 0 < tm \<and> activeVolatility inp = Fin 0 \<longrightarrow>
         diffusionTerm m = Fin 0 \<and> (zScore m = NaN \<longleftrightarrow> k = s)"
    using model_zero_vol_terms(1,3) [OF Some, of s k tm] by blast
  from a b c d show ?thesis
    by (simp only: Some option.case simp_thms)
qed

theorem probability_range_witness:
  "(\<exists>m. model (example_inputs\<lparr>activeVolatility := Fin 0, targetPrice := Fin 3100\<rparr>) = Some m
        \<and> diffusionTerm m = Fin 0 \<and> zScore m \<noteq> NaN
        \<and> (\<exists>p. probability m = Fin p \<and> 0 \<le> p \<and> p \<le> 1))
   \<and> (\<exists>m. model (example_inputs\<lparr>activeVolatility := Fin 0\<rparr>) = Some m
        \<and> diffusionTerm m = Fin 0 \<and> zScore m = NaN \<and> probability m = NaN)"
proof -
  let ?a = "example_inputs\<lparr>activeVolatility := Fin 0, targetPrice := Fin 3100\<rparr>"
  let ?b = "example_inputs\<lparr>activeVolatility := Fin 0\<rparr>"
  have "\<not> no_price (livePrice ?a)" and "\<not> no_price (livePrice ?b)"
    by (simp_all add: example_inputs_def)
  then obtain ma mb where m: "model ?a = Some ma" "model ?b = Some mb"
    using model_None_iff [of ?a] model_None_iff [of ?b] by auto
  note ra = probability_range [of ?a 3000 3100 10, unfolded m(1) option.case]
  note rb = probability_range [of ?b 3000 3000 10, unfolded m(2) option.case]
  have ha: "livePrice ?a = Some (Fin 3000) \<and> (0::real) < 3000
            \<and> targetPrice ?a = Fin 3100 \<and> (0::real) < 3100
            \<and> timeMinutes ?a = Fin 10 \<and> (0::real) < 10 \<and> activeVolatility ?a = Fin 0"
    by (simp add: example_inputs_def)
  with ra have da: "diffusionTerm ma = Fin 0 \<and> (zScore ma = NaN \<longleftrightarrow> (3100::real) = 3000)"
    by blast
  then have za: "zScore ma \<noteq> NaN" by simp
  from ra have "if zScore ma = NaN then probability ma = NaN
                else \<exists>p. probability ma = Fin p \<and> 0 \<le> p \<and> p \<le> 1"
    by blast
  with za have pa: "\<exists>p. probability ma = Fin p \<and> 0 \<le> p \<and> p \<le> 1" by simp
  have hb: "livePrice ?b = Some (Fin 3000) \<and> (0::real) < 3000
            \<and> targetPrice ?b = Fin 3000 \<and> (0::real) < 3000
            \<and> timeMinutes ?b = Fin 10 \<and> (0::real) < 10 \<and> activeVolatility ?b = Fin 0"
    by (simp add: example_inputs_def)
  with rb have db: "diffusionTerm mb = Fin 0 \<and> (zScore mb = NaN \<longleftrightarrow> (3000::real) = 3000)"
    by blast
  then have zb: "zScore mb = NaN" by simp
  from rb have "if zScore mb = NaN then probability mb = NaN
                else \<exists>p. probability mb = Fin p \<and> 0 \<le> p \<and> p \<le> 1"
    by blast
  with zb have pb: "probability mb = NaN" by simp
  from m da za pa db zb pb show ?thesis by blast
qed

section \<open>Monotonicity in the target\<close>




section \<open>The at-target scenario\<close>

lemma example_z: "z_real neutral 3000 3000 60 10 = 0.3 * sqrt (1 / 52560)"
proof -
  have "(0.18 * (1 / 52560)) / (0.6 * sqrt (1 / 52560)) = 0.3 * ((1 / 52560) / sqrt (1 / 52560))"
    by simp
  also have "\<dots> = 0.3 * sqrt (1 / 52560)"
    by (simp only: real_div_sqrt [of "1 / 52560"] zero_le_divide_1_iff zero_le_numeral)
  finally have e: "(0.18 * (1 / 52560)) / (0.6 * sqrt (1 / 52560)) = 0.3 * sqrt (1 / 52560)" .
  have "z_real neutral 3000 3000 60 10 = (0.18 * (1 / 52560)) / (0.6 * sqrt (1 / 52560))"
    by (simp add: z_real_def drift_rate_def power2_eq_square)
  with e show ?thesis by simp
qed

lemma example_z_bounds:
  "0 < z_real neutral 3000 3000 60 10" "z_real neutral 3000 3000 60 10 < 0.0015"
proof -
  have "sqrt (1 / 52560) < sqrt ((1 / 200)\<^sup>2)"
    by (simp only: real_sqrt_less_iff) (simp add: power2_eq_square)
  then have u: "sqrt (1 / 52560) < 1 / 200"
    by simp
  have l: "0 < sqrt (1 / 52560 :: real)" by simp
  show "0 < z_real neutral 3000 3000 60 10"
    unfolding example_z using l by simp
  show "z_real neutral 3000 3000 60 10 < 0.0015"
    unfolding example_z using u by simp
qed

lemma cd_tail_near_0:
  assumes "0 \<le> z" and "z < 0.0015"
  shows "0.499 < cd_tail z"
proof -
  have "z * z \<le> 0.0015 * 0.0015"
    by (rule mult_mono) (use assms in simp_all)
  then have "0.999998 \<le> 1 + (- z * z / 2)" by simp
  also have "\<dots> \<le> exp (- z * z / 2)" by (rule exp_ge_add_one_self)
  finally have e: "0.999998 \<le> exp (- z * z / 2)" .
  have d: "1 + 0.2316419 * \<bar>z\<bar> \<le> 1 + 0.2316419 * 0.0015"
    using assms by simp
  have "0.9996 \<le> 1 / (1 + 0.2316419 * 0.0015 :: real)" by simp
  also have "\<dots> \<le> 1 / (1 + 0.2316419 * \<bar>z\<bar>)"
    by (rule frac_le [OF _ order_refl cd_denominator_pos d]) simp
  finally have "cd_g 0.9996 \<le> cd_g (1 / (1 + 0.2316419 * \<bar>z\<bar>))"
    by (rule cd_g_mono)
  moreover have "1.2515 \<le> cd_g 0.9996"
    by (simp add: cd_g_def)
  ultimately have g: "1.2515 \<le> cd_g (1 / (1 + 0.2316419 * \<bar>z\<bar>))" by linarith
  have "0.999998 * 1.2515 \<le> exp (- z * z / 2) * cd_g (1 / (1 + 0.2316419 * \<bar>z\<bar>))"
    by (rule mult_mono [OF e g]) simp_all
  then have "0.39894228040 * (0.999998 * 1.2515)
           \<le> 0.39894228040 * (exp (- z * z / 2) * cd_g (1 / (1 + 0.2316419 * \<bar>z\<bar>)))"
    by (rule mult_left_mono) simp
  moreover have "(0.499::real) < 0.39894228040 * (0.999998 * 1.2515)" by simp
  ultimately show ?thesis
    unfolding cd_tail_def by (simp only: mult.assoc)
qed

lemma example_model:
  "\<exists>m. model example_inputs = Some m
       \<and> zScore m = Fin (z_real neutral 3000 3000 60 10)
       \<and> probability m = Fin (1 - cd_tail (z_real neutral 3000 3000 60 10))
       \<and> direction m = below"
proof -
  from model_positive_vol [of example_inputs 3000 3000 60 10]
  obtain m where "model example_inputs = Some m"
    "zScore m = Fin (z_real neutral 3000 3000 60 10)"
    "probability m = Fin (cdf_real (z_real neutral 3000 3000 60 10))"
    "direction m = below"
    by (auto simp: example_inputs_def)
  then show ?thesis
    using example_z_bounds(1) by (auto simp: cdf_real_def)
qed

text \<open>
  Claim C4, as stated, fails: for spot 3000, target 3000, 10 minutes, 60 percent, neutral
  bias the z-score is positive, not negative: the numerator is \<open>logReturn - driftTerm\<close>, and
  the drift term \<open>- \<sigma>\<^sup>2 t / 2\<close> is subtracted.
\<close>

theorem at_target_zScore_positive_counterexample:
  "model example_inputs \<noteq> None
   \<and> jgt (zScore (the (model example_inputs))) (Fin 0)
   \<and> \<not> jlt (zScore (the (model example_inputs))) (Fin 0)"
proof -
  from example_model obtain m where
    "model example_inputs = Some m" "zScore m = Fin (z_real neutral 3000 3000 60 10)"
    by blast
  then show ?thesis
    using example_z_bounds(1) by (simp add: jlt_def)
qed

text \<open>
  Claim C4, amended. For that input the z-score is a small positive number (below 0.002),
  the probability is within 0.001 of 0.5, and the direction is \<open>below\<close>, because
  \<open>target > spot\<close> is false when the two are equal.
\<close>

theorem at_target_scenario:
  "\<exists>m z p. model example_inputs = Some m
     \<and> zScore m = Fin z \<and> 0 < z \<and> z < 0.002
     \<and> probability m = Fin p \<and> \<bar>p - 0.5\<bar> < 0.001
     \<and> direction m = below"
proof -
  let ?z = "z_real neutral 3000 3000 60 10"
  from example_model obtain m where m: "model example_inputs = Some m"
    "zScore m = Fin ?z" "probability m = Fin (1 - cd_tail ?z)" "direction m = below"
    by blast
  have "0.499 < cd_tail ?z"
    by (rule cd_tail_near_0 [OF less_imp_le [OF example_z_bounds(1)] example_z_bounds(2)])
  moreover have "cd_tail ?z < 1 / 2" by (rule cd_tail_less_half)
  ultimately have "\<bar>(1 - cd_tail ?z) - 0.5\<bar> < 0.001" by simp
  moreover have "0 < ?z" by (rule example_z_bounds(1))
  moreover have "?z < 0.002"
  proof -
    have "(0.0015::real) < 0.002" by simp
    with example_z_bounds(2) show ?thesis by (rule less_trans)
  qed
  ultimately show ?thesis using m by blast
qed

end
